theory Spec2Isabelle
  imports Complex_Main "HOL-Library.Sublist"
begin

section \<open>The optics tutor: data model\<close>

text \<open>
  The single source module declares the language selector, the chat message, the
  service function \<open>askOpticsExpert\<close> and the \<open>AIChat\<close> component that owns the
  conversation. JavaScript strings are modelled as \<open>string\<close>; the Chinese literals of the
  source are written as their UTF-8 bytes. Only equality, emptiness and containment of
  strings are used below, and UTF-8 preserves all three.
\<close>

datatype Language = EN | ZH

datatype Role = User | Model

record ChatMessage =
  role :: Role
  msg_text :: string

text \<open>What the client library receives: turns made of parts, and a configuration.\<close>

record Part =
  part_text :: string

record Content =
  turn_role :: Role
  parts :: "Part list"

record GenerateContentConfig =
  cfg_systemInstruction :: string
  cfg_temperature :: rat

record GenerateContentParameters =
  req_model :: string
  req_contents :: "Content list"
  req_config :: GenerateContentConfig

text \<open>
  The call \<open>await ai.models.generateContent(...)\<close> followed by the read of
  \<open>response.text\<close> has three possible courses: the promise fulfils and the text is a
  string or \<open>undefined\<close>; something is thrown (a rejected promise, or an exception of
  the getter); or the promise never settles. The thrown value is kept as its message.
\<close>

datatype js_error = Error string

datatype backend_outcome =
    Returns "string option"
  | Throws js_error
  | NeverSettles

type_synonym backend = "GenerateContentParameters \<Rightarrow> backend_outcome"

text \<open>The state of the promise an \<open>async\<close> function hands to its caller.\<close>

datatype 'a promise = Resolved 'a | Rejected js_error | Pending

text \<open>
  The parameter \<open>history\<close> is a reference to an array of references to message objects,
  so the store of arrays and objects is explicit. The two effects of the function are
  explicit as well: the diagnostic records written with \<open>console.error\<close>, and the
  requests handed to the client library.
\<close>

type_synonym addr = nat

record world =
  arrays :: "addr \<Rightarrow> addr list"
  objects :: "addr \<Rightarrow> ChatMessage"
  console_error :: "(string \<times> js_error) list"
  generateContent_calls :: "GenerateContentParameters list"

definition read_history :: "world \<Rightarrow> addr \<Rightarrow> ChatMessage list" where
  "read_history w history = map (objects w) (arrays w history)"

section \<open>The service function\<close>

definition langInstruction :: "Language \<Rightarrow> string" where
  "langInstruction language =
     (if language = ZH
      then ''Reply in Simplified Chinese. Explain concepts using standard Machine Vision terminology in Chinese.''
      else ''Reply in English.'')"

text \<open>The template literal, line by line; \<open>CHR 0x0A\<close> is the line break.\<close>

definition systemInstruction :: "Language \<Rightarrow> string" where
  "systemInstruction language =
     [CHR 0x0A] @
     ''      You are an expert Professor of Machine Vision and Optics. '' @ [CHR 0x0A] @
     ''      Your goal is to explain lighting techniques to students simply and clearly.'' @ [CHR 0x0A] @
     ''      '' @ [CHR 0x0A] @
     ''      Current Topic: Bright Field vs. Dark Field Lighting.'' @ [CHR 0x0A] @
     ''      '' @ [CHR 0x0A] @
     ''      Rules:'' @ [CHR 0x0A] @
     ''      1. '' @ langInstruction language @ [CHR 0x0A] @
     ''      2. Keep answers concise (under 150 words) unless asked for detail.'' @ [CHR 0x0A] @
     ''      3. Use analogies (e.g., '' @ [CHR 0x22] @ ''like a mirror'' @ [CHR 0x22] @ '' or '' @ [CHR 0x22] @ ''like driving in fog'' @ [CHR 0x22] @ '').'' @ [CHR 0x0A] @
     ''      4. Focus on the physics of reflection (Angle of Incidence = Angle of Reflection).'' @ [CHR 0x0A] @
     ''      5. Formatting: Use bullet points for clarity.'' @ [CHR 0x0A] @
     ''    ''"

definition contents :: "ChatMessage list \<Rightarrow> string \<Rightarrow> Content list" where
  "contents history query =
     map (\<lambda>msg. \<lparr>turn_role = role msg, parts = [\<lparr>part_text = msg_text msg\<rparr>]\<rparr>) history @
     [\<lparr>turn_role = User, parts = [\<lparr>part_text = query\<rparr>]\<rparr>]"

text \<open>
  \<open>response.text || fallback\<close>: the right operand is taken when the left one is
  \<open>undefined\<close> or the empty string.
\<close>

definition js_or :: "string option \<Rightarrow> string \<Rightarrow> string" where
  "js_or txt fallback =
     (case txt of None \<Rightarrow> fallback | Some t \<Rightarrow> if t = [] then fallback else t)"

text \<open>
  The two fixed replies, each chosen by \<open>language === 'zh'\<close>: the one of the
  \<open>catch\<close> block, and the right operand of \<open>||\<close> in the \<open>return\<close> of the
  \<open>try\<close> block.
\<close>

definition connection_error_text :: "Language \<Rightarrow> string" where
  "connection_error_text language =
     (if language = ZH
      then [CHR 0xE8, CHR 0xBF, CHR 0x9E, CHR 0xE6, CHR 0x8E, CHR 0xA5] @ '' AI '' @
           [CHR 0xE5, CHR 0xAF, CHR 0xBC, CHR 0xE5, CHR 0xB8, CHR 0x88, CHR 0xE5, CHR 0xA4,
            CHR 0xB1, CHR 0xE8, CHR 0xB4, CHR 0xA5, CHR 0xEF, CHR 0xBC, CHR 0x8C, CHR 0xE8,
            CHR 0xAF, CHR 0xB7, CHR 0xE6, CHR 0xA3, CHR 0x80, CHR 0xE6, CHR 0x9F, CHR 0xA5] @
           '' API '' @
           [CHR 0xE5, CHR 0xAF, CHR 0x86, CHR 0xE9, CHR 0x92, CHR 0xA5, CHR 0xE3, CHR 0x80,
            CHR 0x82]
      else ''Error connecting to the Optics AI Tutor. Please check your API key.'')"

definition no_answer_text :: "Language \<Rightarrow> string" where
  "no_answer_text language =
     (if language = ZH
      then [CHR 0xE6, CHR 0x8A, CHR 0xB1, CHR 0xE6, CHR 0xAD, CHR 0x89, CHR 0xEF, CHR 0xBC,
            CHR 0x8C, CHR 0xE6, CHR 0x88, CHR 0x91, CHR 0xE7, CHR 0x8E, CHR 0xB0, CHR 0xE5,
            CHR 0x9C, CHR 0xA8, CHR 0xE6, CHR 0x97, CHR 0xA0, CHR 0xE6, CHR 0xB3, CHR 0x95,
            CHR 0xE5, CHR 0x9B, CHR 0x9E, CHR 0xE7, CHR 0xAD, CHR 0x94, CHR 0xE5, CHR 0x85,
            CHR 0x89, CHR 0xE5, CHR 0xAD, CHR 0xA6, CHR 0xE9, CHR 0x97, CHR 0xAE, CHR 0xE9,
            CHR 0xA2, CHR 0x98, CHR 0xE3, CHR 0x80, CHR 0x82]
      else ''I couldn'' @ [CHR 0x27] @
           ''t generate a response regarding optics at the moment.'')"

text \<open>
  The argument object of the one call to \<open>ai.models.generateContent\<close>. The literal
  \<open>0.7\<close> is kept as the decimal it denotes.
\<close>

definition request :: "string \<Rightarrow> ChatMessage list \<Rightarrow> Language \<Rightarrow> GenerateContentParameters" where
  "request query history language =
     (let model = ''gemini-2.5-flash''
      in \<lparr>req_model = model,
          req_contents = contents history query,
          req_config =
            \<lparr>cfg_systemInstruction = systemInstruction language,
             cfg_temperature = 7 / 10\<rparr>\<rparr>)"

text \<open>
  The whole body is inside \<open>try\<close>. The request is built from the messages read through
  \<open>history\<close> and handed to the client once. A returned text goes through \<open>||\<close>; a
  thrown value is logged and replaced by the fixed reply; while the call is unsettled the
  function stays suspended at \<open>await\<close> and its own promise is pending.
\<close>

definition askOpticsExpert ::
  "backend \<Rightarrow> string \<Rightarrow> addr \<Rightarrow> Language \<Rightarrow> world \<Rightarrow> string promise \<times> world" where
  "askOpticsExpert ai query history language w =
     (let req = request query (read_history w history) language;
          w1 = w\<lparr>generateContent_calls := generateContent_calls w @ [req]\<rparr>
      in case ai req of
           Returns txt \<Rightarrow> (Resolved (js_or txt (no_answer_text language)), w1)
         | Throws error \<Rightarrow>
             (Resolved (connection_error_text language),
              w1\<lparr>console_error := console_error w1 @ [(''Gemini API Error:'', error)]\<rparr>)
         | NeverSettles \<Rightarrow> (Pending, w1))"

section \<open>The conversation held by the chat component\<close>

text \<open>
  \<open>AIChat\<close> keeps the conversation in the state variable \<open>messages\<close> and the flag
  \<open>initialized\<close> in a ref. Every update of \<open>messages\<close> installs a new array, so the
  state is modelled by value. A component starts with \<open>useState([])\<close> and
  \<open>useRef(false)\<close>.
\<close>

record chat_state =
  messages :: "ChatMessage list"
  initialized :: bool

definition mount :: chat_state where
  "mount = \<lparr>messages = [], initialized = False\<rparr>"

definition welcomeText :: "Language \<Rightarrow> string" where
  "welcomeText language =
     (let isZh = (language = ZH)
      in if isZh
         then [CHR 0xE4, CHR 0xBD, CHR 0xA0, CHR 0xE5, CHR 0xA5, CHR 0xBD, CHR 0xEF, CHR 0xBC,
               CHR 0x81, CHR 0xE6, CHR 0x88, CHR 0x91, CHR 0xE6, CHR 0x98, CHR 0xAF, CHR 0xE4,
               CHR 0xBD, CHR 0xA0, CHR 0xE7, CHR 0x9A, CHR 0x84, CHR 0xE5, CHR 0x85, CHR 0x89,
               CHR 0xE5, CHR 0xAD, CHR 0xA6, CHR 0xE5, CHR 0x8A, CHR 0xA9, CHR 0xE6, CHR 0x95,
               CHR 0x99, CHR 0xE3, CHR 0x80, CHR 0x82, CHR 0xE5, CHR 0x85, CHR 0xB3, CHR 0xE4,
               CHR 0xBA, CHR 0x8E, CHR 0xE6, CHR 0x89, CHR 0x93, CHR 0xE5, CHR 0x85, CHR 0x89,
               CHR 0xE8, CHR 0xA7, CHR 0x92, CHR 0xE5, CHR 0xBA, CHR 0xA6, CHR 0xE3, CHR 0x80,
               CHR 0x81, CHR 0xE6, CHR 0x98, CHR 0x8E, CHR 0xE6, CHR 0x9A, CHR 0x97, CHR 0xE8,
               CHR 0xA7, CHR 0x86, CHR 0xE9, CHR 0x87, CHR 0x8E, CHR 0xE6, CHR 0x88, CHR 0x96,
               CHR 0xE6, CHR 0xA3, CHR 0x80, CHR 0xE6, CHR 0xB5, CHR 0x8B, CHR 0xE9, CHR 0x9A,
               CHR 0xBE, CHR 0xE9, CHR 0xA2, CHR 0x98, CHR 0xEF, CHR 0xBC, CHR 0x8C, CHR 0xE5,
               CHR 0xB0, CHR 0xBD, CHR 0xE7, CHR 0xAE, CHR 0xA1, CHR 0xE9, CHR 0x97, CHR 0xAE,
               CHR 0xE6, CHR 0x88, CHR 0x91, CHR 0xE3, CHR 0x80, CHR 0x82]
         else ''Hi! I'' @ [CHR 0x27] @
              ''m your Optics Tutor. Ask me anything about lighting angles, reflection, or detection techniques.'')"

text \<open>
  The three operations on the conversation, under the names the specification gives
  them. \<open>reset\<close> is \<open>setMessages([welcomeMessage])\<close>, the call inside the effect;
  \<open>appendMessage\<close> is \<open>setMessages(prev => [...prev, msg])\<close>, which \<open>handleSend\<close>
  calls once for the question and once for the answer; \<open>snapshot\<close> is the read of
  \<open>messages\<close>.
\<close>

definition reset :: "ChatMessage \<Rightarrow> chat_state \<Rightarrow> chat_state" where
  "reset welcomeMessage st = st\<lparr>messages := [welcomeMessage]\<rparr>"

definition appendMessage :: "ChatMessage \<Rightarrow> chat_state \<Rightarrow> chat_state" where
  "appendMessage msg st = st\<lparr>messages := messages st @ [msg]\<rparr>"

definition snapshot :: "chat_state \<Rightarrow> ChatMessage list" where
  "snapshot st = messages st"

text \<open>
  The body of the effect that React runs after the first render and after every change
  of \<open>isZh\<close>: the store is reset to the welcome message, and the flag set, only while
  the flag is unset.
\<close>

definition welcome_effect :: "Language \<Rightarrow> chat_state \<Rightarrow> chat_state" where
  "welcome_effect language st =
     (if \<not> initialized st
      then (reset \<lparr>role = Model, msg_text = welcomeText language\<rparr> st)\<lparr>initialized := True\<rparr>
      else st)"

text \<open>
  What happens to a mounted component, in order: the effect runs for the language then
  active, or a message is appended.
\<close>

datatype chat_event = EffectRun Language | Append ChatMessage

fun run :: "chat_event list \<Rightarrow> chat_state \<Rightarrow> chat_state" where
  "run [] st = st"
| "run (EffectRun language # evs) st = run evs (welcome_effect language st)"
| "run (Append msg # evs) st = run evs (appendMessage msg st)"

definition append_all :: "ChatMessage list \<Rightarrow> chat_state \<Rightarrow> chat_state" where
  "append_all msgs st = foldl (\<lambda>s msg. appendMessage msg s) st msgs"

fun appended :: "chat_event list \<Rightarrow> ChatMessage list" where
  "appended [] = []"
| "appended (EffectRun language # evs) = appended evs"
| "appended (Append msg # evs) = msg # appended evs"

section \<open>Sample inputs\<close>

definition sample_world :: world where
  "sample_world =
     \<lparr>arrays = (\<lambda>a. if a = 0 then [1, 2] else []),
      objects = (\<lambda>a. if a = 1 then \<lparr>role = Model, msg_text = ''Hi! ...''\<rparr>
                      else \<lparr>role = User, msg_text = ''What is dark field?''\<rparr>),
      console_error = [],
      generateContent_calls = []\<rparr>"

definition other_world :: world where
  "other_world =
     \<lparr>arrays = (\<lambda>a. if a = 7 then [4, 5] else [3]),
      objects = (\<lambda>a. if a = 4 then \<lparr>role = Model, msg_text = ''Hi! ...''\<rparr>
                      else \<lparr>role = User, msg_text = ''What is dark field?''\<rparr>),
      console_error = [(''Gemini API Error:'', Error ''earlier failure'')],
      generateContent_calls = []\<rparr>"

definition answering_backend :: backend where
  "answering_backend req = Returns (Some ''Low angle light skims the flat surface...'')"

definition undefined_text_backend :: backend where
  "undefined_text_backend req = Returns None"

definition silent_backend :: backend where
  "silent_backend req = Returns (Some [])"

definition failing_backend :: backend where
  "failing_backend req = Throws (Error ''fetch failed'')"

definition hanging_backend :: backend where
  "hanging_backend req = NeverSettles"

section \<open>Facts about the service function\<close>

lemma ask_calls:
  "generateContent_calls (snd (askOpticsExpert ai query history language w)) =
     generateContent_calls w @ [request query (read_history w history) language]"
  by (simp add: askOpticsExpert_def Let_def split: backend_outcome.split)

lemma ask_arrays: "arrays (snd (askOpticsExpert ai query history language w)) = arrays w"
  by (simp add: askOpticsExpert_def Let_def split: backend_outcome.split)

lemma ask_objects: "objects (snd (askOpticsExpert ai query history language w)) = objects w"
  by (simp add: askOpticsExpert_def Let_def split: backend_outcome.split)

lemma ask_Returns:
  "ai (request query (read_history w history) language) = Returns txt \<Longrightarrow>
   fst (askOpticsExpert ai query history language w) =
     Resolved (js_or txt (no_answer_text language))"
  by (simp add: askOpticsExpert_def Let_def)

lemma ask_Throws:
  "ai (request query (read_history w history) language) = Throws e \<Longrightarrow>
   askOpticsExpert ai query history language w =
     (Resolved (connection_error_text language),
      w\<lparr>generateContent_calls :=
           generateContent_calls w @ [request query (read_history w history) language],
         console_error := console_error w @ [(''Gemini API Error:'', e)]\<rparr>)"
  by (simp add: askOpticsExpert_def Let_def)

lemma js_or_nonempty: "fallback \<noteq> [] \<Longrightarrow> js_or txt fallback \<noteq> []"
  by (simp add: js_or_def split: option.split)

lemma no_answer_nonempty: "no_answer_text language \<noteq> []"
  by (simp add: no_answer_text_def)

lemma connection_error_nonempty: "connection_error_text language \<noteq> []"
  by (simp add: connection_error_text_def)

lemma read_sample_world:
  "read_history sample_world 0 =
     [\<lparr>role = Model, msg_text = ''Hi! ...''\<rparr>, \<lparr>role = User, msg_text = ''What is dark field?''\<rparr>]"
  by (simp add: read_history_def sample_world_def)

lemma read_other_world:
  "read_history other_world 7 =
     [\<lparr>role = Model, msg_text = ''Hi! ...''\<rparr>, \<lparr>role = User, msg_text = ''What is dark field?''\<rparr>]"
  by (simp add: read_history_def other_world_def)

text \<open>
  C1, as amended. The function never rejects, whatever the client does. Whenever the one
  call to the client settles (it returns or it throws), the function resolves, and the
  resolved string is not empty; this holds for every query, the empty and the
  whitespace-only ones included. No timeout is set around the call, so a call that never
  settles leaves the function's promise pending.
\<close>

theorem ask_resolves_when_backend_settles:
  "(\<forall>e. fst (askOpticsExpert ai query history language w) \<noteq> Rejected e) \<and>
   (ai (request query (read_history w history) language) \<noteq> NeverSettles \<longrightarrow>
      (\<exists>answer. fst (askOpticsExpert ai query history language w) = Resolved answer \<and>
                answer \<noteq> [])) \<and>
   (ai (request query (read_history w history) language) = NeverSettles \<longrightarrow>
      fst (askOpticsExpert ai query history language w) = Pending)"
  by (cases "ai (request query (read_history w history) language)")
     (simp_all add: askOpticsExpert_def Let_def js_or_nonempty no_answer_nonempty
        connection_error_nonempty)

theorem ask_resolves_when_backend_settles_witness:
  "(failing_backend (request ''   '' (read_history sample_world 0) ZH) \<noteq> NeverSettles \<and>
    (\<exists>answer. fst (askOpticsExpert failing_backend ''   '' 0 ZH sample_world) = Resolved answer \<and>
              answer \<noteq> [])) \<and>
   (hanging_backend (request ''   '' (read_history other_world 7) ZH) = NeverSettles \<and>
    fst (askOpticsExpert hanging_backend ''   '' 7 ZH other_world) = Pending)"
  using
    ask_resolves_when_backend_settles [of failing_backend "''   ''" 0 ZH sample_world]
    ask_resolves_when_backend_settles [of hanging_backend "''   ''" 7 ZH other_world]
  by (simp add: failing_backend_def hanging_backend_def)

text \<open>
  The sentence as written, that the function always resolves, fails for a client whose
  promise never settles.
\<close>

theorem ask_pending_counterexample:
  "fst (askOpticsExpert hanging_backend ''Why low angle for scratches?'' 0 EN sample_world) =
     Pending"
  by (simp add: askOpticsExpert_def hanging_backend_def Let_def)

text \<open>
  C2. The turns of the request handed to the client are the messages of \<open>history\<close>, in
  their order and each with its own role and text in a single part, followed by one more
  turn of role \<open>User\<close> whose single part is the query. Nothing is dropped: the request has
  one turn more than the history has messages.
\<close>

theorem ask_turn_sequence:
  "map turn_role
     (req_contents (last (generateContent_calls (snd (askOpticsExpert ai query history language w))))) =
     map role (read_history w history) @ [User] \<and>
   map parts
     (req_contents (last (generateContent_calls (snd (askOpticsExpert ai query history language w))))) =
     map (\<lambda>msg. [\<lparr>part_text = msg_text msg\<rparr>]) (read_history w history) @
     [[\<lparr>part_text = query\<rparr>]] \<and>
   length
     (req_contents (last (generateContent_calls (snd (askOpticsExpert ai query history language w))))) =
     Suc (length (read_history w history))"
  by (simp add: ask_calls request_def contents_def Let_def comp_def)

text \<open>
  C3. When the call to the client throws, the thrown value is written to the console
  under the label \<open>Gemini API Error:\<close>, the function does not reject, and it resolves
  to the fixed reply of the language: the English sentence, or its Chinese counterpart
  (given here as UTF-8 bytes).
\<close>

theorem ask_backend_error_reply:
  assumes "ai (request query (read_history w history) language) = Throws e"
  shows "fst (askOpticsExpert ai query history language w) =
           Resolved
             (case language of
                EN \<Rightarrow> ''Error connecting to the Optics AI Tutor. Please check your API key.''
              | ZH \<Rightarrow>
                   [CHR 0xE8, CHR 0xBF, CHR 0x9E, CHR 0xE6, CHR 0x8E, CHR 0xA5] @ '' AI '' @
                   [CHR 0xE5, CHR 0xAF, CHR 0xBC, CHR 0xE5, CHR 0xB8, CHR 0x88, CHR 0xE5, CHR 0xA4,
                    CHR 0xB1, CHR 0xE8, CHR 0xB4, CHR 0xA5, CHR 0xEF, CHR 0xBC, CHR 0x8C, CHR 0xE8,
                    CHR 0xAF, CHR 0xB7, CHR 0xE6, CHR 0xA3, CHR 0x80, CHR 0xE6, CHR 0x9F, CHR 0xA5] @
                   '' API '' @
                   [CHR 0xE5, CHR 0xAF, CHR 0x86, CHR 0xE9, CHR 0x92, CHR 0xA5, CHR 0xE3, CHR 0x80,
                    CHR 0x82]) \<and>
         console_error (snd (askOpticsExpert ai query history language w)) =
           console_error w @ [(''Gemini API Error:'', e)]"
  using assms by (cases language) (simp_all add: ask_Throws connection_error_text_def)

theorem ask_backend_error_reply_witness:
  "failing_backend (request ''Why?'' (read_history sample_world 0) EN) =
     Throws (Error ''fetch failed'') \<and>
   fst (askOpticsExpert failing_backend ''Why?'' 0 EN sample_world) =
     Resolved ''Error connecting to the Optics AI Tutor. Please check your API key.'' \<and>
   console_error (snd (askOpticsExpert failing_backend ''Why?'' 0 EN sample_world)) =
     [(''Gemini API Error:'', Error ''fetch failed'')]"
  using ask_backend_error_reply
    [of failing_backend "''Why?''" sample_world 0 EN "Error ''fetch failed''"]
  by (simp add: failing_backend_def sample_world_def)

text \<open>
  C4. When the call succeeds without text (the text is \<open>undefined\<close> or the empty
  string), the function resolves to the fixed "no answer" reply of the language: the
  English sentence, or its Chinese counterpart (given here as UTF-8 bytes). In each
  language that reply is not empty and differs from the error reply. A text that is not
  empty is returned as it is.
\<close>

theorem ask_empty_and_nonempty_reply:
  "(ai (request query (read_history w history) language) = Returns None \<or>
    ai (request query (read_history w history) language) = Returns (Some []) \<longrightarrow>
      fst (askOpticsExpert ai query history language w) =
        Resolved
          (case language of
             EN \<Rightarrow> ''I couldn'' @ [CHR 0x27] @
               ''t generate a response regarding optics at the moment.''
           | ZH \<Rightarrow>
              [CHR 0xE6, CHR 0x8A, CHR 0xB1, CHR 0xE6, CHR 0xAD, CHR 0x89, CHR 0xEF, CHR 0xBC,
               CHR 0x8C, CHR 0xE6, CHR 0x88, CHR 0x91, CHR 0xE7, CHR 0x8E, CHR 0xB0, CHR 0xE5,
               CHR 0x9C, CHR 0xA8, CHR 0xE6, CHR 0x97, CHR 0xA0, CHR 0xE6, CHR 0xB3, CHR 0x95,
               CHR 0xE5, CHR 0x9B, CHR 0x9E, CHR 0xE7, CHR 0xAD, CHR 0x94, CHR 0xE5, CHR 0x85,
               CHR 0x89, CHR 0xE5, CHR 0xAD, CHR 0xA6, CHR 0xE9, CHR 0x97, CHR 0xAE, CHR 0xE9,
               CHR 0xA2, CHR 0x98, CHR 0xE3, CHR 0x80, CHR 0x82])) \<and>
   (ai (request query (read_history w history) language) = Returns (Some t) \<and> t \<noteq> [] \<longrightarrow>
      fst (askOpticsExpert ai query history language w) = Resolved t) \<and>
   ''I couldn'' @ [CHR 0x27] @
               ''t generate a response regarding optics at the moment.'' \<noteq>
     ''Error connecting to the Optics AI Tutor. Please check your API key.'' \<and>
   [CHR 0xE6, CHR 0x8A, CHR 0xB1, CHR 0xE6, CHR 0xAD, CHR 0x89, CHR 0xEF, CHR 0xBC,
               CHR 0x8C, CHR 0xE6, CHR 0x88, CHR 0x91, CHR 0xE7, CHR 0x8E, CHR 0xB0, CHR 0xE5,
               CHR 0x9C, CHR 0xA8, CHR 0xE6, CHR 0x97, CHR 0xA0, CHR 0xE6, CHR 0xB3, CHR 0x95,
               CHR 0xE5, CHR 0x9B, CHR 0x9E, CHR 0xE7, CHR 0xAD, CHR 0x94, CHR 0xE5, CHR 0x85,
               CHR 0x89, CHR 0xE5, CHR 0xAD, CHR 0xA6, CHR 0xE9, CHR 0x97, CHR 0xAE, CHR 0xE9,
               CHR 0xA2, CHR 0x98, CHR 0xE3, CHR 0x80, CHR 0x82] \<noteq>
     [CHR 0xE8, CHR 0xBF, CHR 0x9E, CHR 0xE6, CHR 0x8E, CHR 0xA5] @ '' AI '' @
               [CHR 0xE5, CHR 0xAF, CHR 0xBC, CHR 0xE5, CHR 0xB8, CHR 0x88, CHR 0xE5, CHR 0xA4,
                CHR 0xB1, CHR 0xE8, CHR 0xB4, CHR 0xA5, CHR 0xEF, CHR 0xBC, CHR 0x8C, CHR 0xE8,
                CHR 0xAF, CHR 0xB7, CHR 0xE6, CHR 0xA3, CHR 0x80, CHR 0xE6, CHR 0x9F, CHR 0xA5] @
               '' API '' @
               [CHR 0xE5, CHR 0xAF, CHR 0x86, CHR 0xE9, CHR 0x92, CHR 0xA5, CHR 0xE3, CHR 0x80,
                CHR 0x82] \<and>
   no_answer_text language \<noteq> connection_error_text language \<and>
   no_answer_text language \<noteq> []"
proof -
  have fallback: "js_or None (no_answer_text language) =
      (case language of
         EN \<Rightarrow> ''I couldn'' @ [CHR 0x27] @
               ''t generate a response regarding optics at the moment.''
       | ZH \<Rightarrow>
          [CHR 0xE6, CHR 0x8A, CHR 0xB1, CHR 0xE6, CHR 0xAD, CHR 0x89, CHR 0xEF, CHR 0xBC,
               CHR 0x8C, CHR 0xE6, CHR 0x88, CHR 0x91, CHR 0xE7, CHR 0x8E, CHR 0xB0, CHR 0xE5,
               CHR 0x9C, CHR 0xA8, CHR 0xE6, CHR 0x97, CHR 0xA0, CHR 0xE6, CHR 0xB3, CHR 0x95,
               CHR 0xE5, CHR 0x9B, CHR 0x9E, CHR 0xE7, CHR 0xAD, CHR 0x94, CHR 0xE5, CHR 0x85,
               CHR 0x89, CHR 0xE5, CHR 0xAD, CHR 0xA6, CHR 0xE9, CHR 0x97, CHR 0xAE, CHR 0xE9,
               CHR 0xA2, CHR 0x98, CHR 0xE3, CHR 0x80, CHR 0x82])"
    "js_or (Some []) (no_answer_text language) = js_or None (no_answer_text language)"
    by (cases language; simp add: js_or_def no_answer_text_def)+
  have empty_text: "ai (request query (read_history w history) language) = Returns None \<or>
      ai (request query (read_history w history) language) = Returns (Some []) \<longrightarrow>
      fst (askOpticsExpert ai query history language w) =
        Resolved
          (case language of
             EN \<Rightarrow> ''I couldn'' @ [CHR 0x27] @
               ''t generate a response regarding optics at the moment.''
           | ZH \<Rightarrow>
              [CHR 0xE6, CHR 0x8A, CHR 0xB1, CHR 0xE6, CHR 0xAD, CHR 0x89, CHR 0xEF, CHR 0xBC,
               CHR 0x8C, CHR 0xE6, CHR 0x88, CHR 0x91, CHR 0xE7, CHR 0x8E, CHR 0xB0, CHR 0xE5,
               CHR 0x9C, CHR 0xA8, CHR 0xE6, CHR 0x97, CHR 0xA0, CHR 0xE6, CHR 0xB3, CHR 0x95,
               CHR 0xE5, CHR 0x9B, CHR 0x9E, CHR 0xE7, CHR 0xAD, CHR 0x94, CHR 0xE5, CHR 0x85,
               CHR 0x89, CHR 0xE5, CHR 0xAD, CHR 0xA6, CHR 0xE9, CHR 0x97, CHR 0xAE, CHR 0xE9,
               CHR 0xA2, CHR 0x98, CHR 0xE3, CHR 0x80, CHR 0x82])"
    using fallback by (auto simp: ask_Returns)
  have verbatim: "ai (request query (read_history w history) language) = Returns (Some t) \<and> t \<noteq> [] \<longrightarrow>
      fst (askOpticsExpert ai query history language w) = Resolved t"
    by (auto simp: ask_Returns js_or_def)
  have en: "''I couldn'' @ [CHR 0x27] @
               ''t generate a response regarding optics at the moment.'' \<noteq>
     ''Error connecting to the Optics AI Tutor. Please check your API key.''"
    by simp
  have zh: "[CHR 0xE6, CHR 0x8A, CHR 0xB1, CHR 0xE6, CHR 0xAD, CHR 0x89, CHR 0xEF, CHR 0xBC,
               CHR 0x8C, CHR 0xE6, CHR 0x88, CHR 0x91, CHR 0xE7, CHR 0x8E, CHR 0xB0, CHR 0xE5,
               CHR 0x9C, CHR 0xA8, CHR 0xE6, CHR 0x97, CHR 0xA0, CHR 0xE6, CHR 0xB3, CHR 0x95,
               CHR 0xE5, CHR 0x9B, CHR 0x9E, CHR 0xE7, CHR 0xAD, CHR 0x94, CHR 0xE5, CHR 0x85,
               CHR 0x89, CHR 0xE5, CHR 0xAD, CHR 0xA6, CHR 0xE9, CHR 0x97, CHR 0xAE, CHR 0xE9,
               CHR 0xA2, CHR 0x98, CHR 0xE3, CHR 0x80, CHR 0x82] \<noteq>
     [CHR 0xE8, CHR 0xBF, CHR 0x9E, CHR 0xE6, CHR 0x8E, CHR 0xA5] @ '' AI '' @
               [CHR 0xE5, CHR 0xAF, CHR 0xBC, CHR 0xE5, CHR 0xB8, CHR 0x88, CHR 0xE5, CHR 0xA4,
                CHR 0xB1, CHR 0xE8, CHR 0xB4, CHR 0xA5, CHR 0xEF, CHR 0xBC, CHR 0x8C, CHR 0xE8,
                CHR 0xAF, CHR 0xB7, CHR 0xE6, CHR 0xA3, CHR 0x80, CHR 0xE6, CHR 0x9F, CHR 0xA5] @
               '' API '' @
               [CHR 0xE5, CHR 0xAF, CHR 0x86, CHR 0xE9, CHR 0x92, CHR 0xA5, CHR 0xE3, CHR 0x80,
                CHR 0x82]"
    by simp
  have differ: "no_answer_text language \<noteq> connection_error_text language"
    by (cases language) (simp_all add: no_answer_text_def connection_error_text_def)
  from empty_text verbatim en zh differ no_answer_nonempty [of language] show ?thesis
    by blast
qed

theorem ask_empty_and_nonempty_reply_witness:
  "(undefined_text_backend (request ''Why?'' (read_history sample_world 0) ZH) = Returns None \<and>
      fst (askOpticsExpert undefined_text_backend ''Why?'' 0 ZH sample_world) =
        Resolved
          ([CHR 0xE6, CHR 0x8A, CHR 0xB1, CHR 0xE6, CHR 0xAD, CHR 0x89, CHR 0xEF, CHR 0xBC,
               CHR 0x8C, CHR 0xE6, CHR 0x88, CHR 0x91, CHR 0xE7, CHR 0x8E, CHR 0xB0, CHR 0xE5,
               CHR 0x9C, CHR 0xA8, CHR 0xE6, CHR 0x97, CHR 0xA0, CHR 0xE6, CHR 0xB3, CHR 0x95,
               CHR 0xE5, CHR 0x9B, CHR 0x9E, CHR 0xE7, CHR 0xAD, CHR 0x94, CHR 0xE5, CHR 0x85,
               CHR 0x89, CHR 0xE5, CHR 0xAD, CHR 0xA6, CHR 0xE9, CHR 0x97, CHR 0xAE, CHR 0xE9,
               CHR 0xA2, CHR 0x98, CHR 0xE3, CHR 0x80, CHR 0x82])) \<and>
   (silent_backend (request ''Why?'' (read_history sample_world 0) EN) = Returns (Some []) \<and>
      fst (askOpticsExpert silent_backend ''Why?'' 0 EN sample_world) =
        Resolved
          (''I couldn'' @ [CHR 0x27] @
               ''t generate a response regarding optics at the moment.'')) \<and>
   (answering_backend (request ''Why?'' (read_history sample_world 0) EN) =
        Returns (Some ''Low angle light skims the flat surface...'') \<and>
      fst (askOpticsExpert answering_backend ''Why?'' 0 EN sample_world) =
        Resolved ''Low angle light skims the flat surface...'')"
  using
    ask_empty_and_nonempty_reply [of undefined_text_backend "''Why?''" sample_world 0 ZH]
    ask_empty_and_nonempty_reply [of silent_backend "''Why?''" sample_world 0 EN]
    ask_empty_and_nonempty_reply [of answering_backend "''Why?''" sample_world 0 EN
      "''Low angle light skims the flat surface...''"]
  by (simp add: undefined_text_backend_def silent_backend_def answering_backend_def)

text \<open>
  C5. For \<open>ZH\<close> the system prompt contains the directive to reply in Simplified Chinese
  with the standard machine-vision terminology, and no instruction to reply in English;
  for \<open>EN\<close> it contains \<open>Reply in English.\<close> and not even the first words of the
  Chinese directive. The prompt is the one the request carries.
\<close>

theorem system_prompt_language_directive:
  "sublist
     ''Reply in Simplified Chinese. Explain concepts using standard Machine Vision terminology in Chinese.''
     (systemInstruction ZH) \<and>
   \<not> sublist ''Reply in English'' (systemInstruction ZH) \<and>
   sublist ''Reply in English.'' (systemInstruction EN) \<and>
   \<not> sublist ''Reply in Simplified Chinese'' (systemInstruction EN) \<and>
   cfg_systemInstruction (req_config (request query history language)) =
     systemInstruction language"
proof -
  have "sublist
     ''Reply in Simplified Chinese. Explain concepts using standard Machine Vision terminology in Chinese.''
     (systemInstruction ZH)"
    by code_simp
  moreover have "\<not> sublist ''Reply in English'' (systemInstruction ZH)"
    by code_simp
  moreover have "sublist ''Reply in English.'' (systemInstruction EN)"
    by code_simp
  moreover have "\<not> sublist ''Reply in Simplified Chinese'' (systemInstruction EN)"
    by code_simp
  moreover have "cfg_systemInstruction (req_config (request query history language)) =
     systemInstruction language"
    by (simp add: request_def Let_def)
  ultimately show ?thesis by blast
qed

text \<open>
  C7. The function only reads through \<open>history\<close>: after the call every array and every
  message object of the store is what it was, so the history array and each message in
  it are unchanged. The request is built from copies of the role and text strings and
  holds no reference into the store.
\<close>

theorem ask_leaves_history_unchanged:
  "arrays (snd (askOpticsExpert ai query history language w)) = arrays w \<and>
   objects (snd (askOpticsExpert ai query history language w)) = objects w \<and>
   read_history (snd (askOpticsExpert ai query history language w)) history =
     read_history w history"
  by (simp add: ask_arrays ask_objects read_history_def)

text \<open>
  C8. Every invocation hands exactly one request to the client, whether the call then
  returns, throws or never settles; there is no second attempt. The request names the
  model \<open>gemini-2.5-flash\<close>, sets the temperature to 0.7 and carries the system prompt
  and the turn sequence.
\<close>

theorem ask_issues_one_call:
  "generateContent_calls (snd (askOpticsExpert ai query history language w)) =
     generateContent_calls w @ [request query (read_history w history) language] \<and>
   req_model (request query (read_history w history) language) = ''gemini-2.5-flash'' \<and>
   cfg_temperature (req_config (request query (read_history w history) language)) = 7 / 10 \<and>
   cfg_systemInstruction (req_config (request query (read_history w history) language)) =
     systemInstruction language \<and>
   req_contents (request query (read_history w history) language) =
     contents (read_history w history) query"
  by (simp add: ask_calls request_def Let_def)

text \<open>
  C9. Two invocations with the same query, the same language and histories holding the
  same messages hand the same request to the client, whatever the client answers, where
  the histories are stored, and what was logged or sent before.
\<close>

theorem request_construction_deterministic:
  assumes "read_history w1 history1 = read_history w2 history2"
  shows "last (generateContent_calls (snd (askOpticsExpert ai1 query history1 language w1))) =
         last (generateContent_calls (snd (askOpticsExpert ai2 query history2 language w2)))"
  using assms by (simp add: ask_calls)

theorem request_construction_deterministic_witness:
  "read_history sample_world 0 = read_history other_world 7 \<and>
   last (generateContent_calls
           (snd (askOpticsExpert answering_backend ''Why?'' 0 ZH sample_world))) =
   last (generateContent_calls
           (snd (askOpticsExpert failing_backend ''Why?'' 7 ZH other_world)))"
  using request_construction_deterministic
    [of sample_world 0 other_world 7 answering_backend "''Why?''" ZH failing_backend]
  by (simp add: read_sample_world read_other_world)

section \<open>Facts about the conversation\<close>

lemma welcome_effect_initialized: "initialized (welcome_effect language st)"
  by (simp add: welcome_effect_def reset_def)

lemma welcome_effect_noop: "initialized st \<Longrightarrow> welcome_effect language st = st"
  by (simp add: welcome_effect_def)

lemma welcome_effect_mount:
  "welcome_effect language mount =
     \<lparr>messages = [\<lparr>role = Model, msg_text = welcomeText language\<rparr>], initialized = True\<rparr>"
  by (simp add: welcome_effect_def reset_def mount_def)

lemma messages_append_all: "messages (append_all msgs st) = messages st @ msgs"
  unfolding append_all_def
  by (induction msgs arbitrary: st) (simp_all add: appendMessage_def)

lemma initialized_append_all: "initialized (append_all msgs st) = initialized st"
  unfolding append_all_def
  by (induction msgs arbitrary: st) (simp_all add: appendMessage_def)

lemma run_initialized:
  "initialized st \<Longrightarrow> run evs st = st\<lparr>messages := messages st @ appended evs\<rparr>"
proof (induction evs arbitrary: st)
  case Nil
  then show ?case by simp
next
  case (Cons ev evs)
  show ?case
  proof (cases ev)
    case (EffectRun language)
    with Cons show ?thesis by (simp add: welcome_effect_noop)
  next
    case (Append msg)
    have "initialized (appendMessage msg st)"
      using Cons.prems by (simp add: appendMessage_def)
    from Cons.IH [OF this] Append show ?thesis
      by (simp add: appendMessage_def)
  qed
qed

lemma welcome_texts_differ: "welcomeText EN \<noteq> welcomeText ZH"
  by (simp add: welcomeText_def)

text \<open>
  C6. A reset leaves the store holding exactly one message, the welcome message it was
  given, and a repeated reset ends in the same store as a single one. After a reset and
  any sequence of appends, the snapshot is the welcome message followed by the appended
  messages in call order. The component resets with a message of role \<open>Model\<close>: the
  effect at mount seeds exactly that one message, running the effect again changes
  nothing, and the snapshot after the appends that follow starts with it.
\<close>

theorem reset_then_appends_snapshot:
  "snapshot (reset welcomeMessage st) = [welcomeMessage] \<and>
   reset welcomeMessage (reset welcomeMessage' st) = reset welcomeMessage st \<and>
   snapshot (append_all msgs (reset welcomeMessage st)) = welcomeMessage # msgs \<and>
   snapshot (welcome_effect language mount) =
     [\<lparr>role = Model, msg_text = welcomeText language\<rparr>] \<and>
   welcome_effect language' (welcome_effect language st) = welcome_effect language st \<and>
   snapshot (append_all msgs (welcome_effect language mount)) =
     \<lparr>role = Model, msg_text = welcomeText language\<rparr> # msgs"
proof -
  have one: "snapshot (reset welcomeMessage st) = [welcomeMessage]"
    by (simp add: snapshot_def reset_def)
  have twice: "reset welcomeMessage (reset welcomeMessage' st) = reset welcomeMessage st"
    by (simp add: reset_def)
  have order: "snapshot (append_all msgs (reset welcomeMessage st)) = welcomeMessage # msgs"
    by (simp add: snapshot_def messages_append_all reset_def)
  have seeded: "snapshot (welcome_effect language mount) =
      [\<lparr>role = Model, msg_text = welcomeText language\<rparr>]"
    by (simp add: snapshot_def welcome_effect_mount)
  have again: "welcome_effect language' (welcome_effect language st) = welcome_effect language st"
    by (simp add: welcome_effect_noop welcome_effect_initialized)
  have first: "snapshot (append_all msgs (welcome_effect language mount)) =
      \<lparr>role = Model, msg_text = welcomeText language\<rparr> # msgs"
    by (simp add: snapshot_def messages_append_all welcome_effect_mount)
  from one twice order seeded again first show ?thesis by blast
qed

text \<open>
  C10. The welcome message is seeded once in the lifetime of a component. After the
  effect has run at mount for the language then active, whatever follows (appends, and
  runs of the effect for either language) leaves the store holding that first welcome
  message followed by the appended messages: a later run of the effect changes nothing,
  so the history is never cleared, seeded again or replaced, and the welcome text stays
  in the first language, which differs from the text of the other one.
\<close>

theorem welcome_seeded_once_per_lifetime:
  "snapshot (run evs (welcome_effect language0 mount)) =
     \<lparr>role = Model, msg_text = welcomeText language0\<rparr> # appended evs \<and>
   welcome_effect language (run evs (welcome_effect language0 mount)) =
     run evs (welcome_effect language0 mount) \<and>
   welcomeText EN \<noteq> welcomeText ZH"
proof -
  have r: "run evs (welcome_effect language0 mount) =
      \<lparr>messages = \<lparr>role = Model, msg_text = welcomeText language0\<rparr> # appended evs,
       initialized = True\<rparr>"
    by (simp add: run_initialized welcome_effect_initialized) (simp add: welcome_effect_mount)
  then show ?thesis
    by (simp add: snapshot_def welcome_effect_noop welcome_texts_differ)
qed

end
